theory Spec2Isabelle
  imports Main "HOL-Library.Word"
begin

section \<open>Data model of the update agent\<close>

text \<open>
  The state identifiers of \<^verbatim>\<open>updatehub/states.go\<close>, in the order of the
  \<^verbatim>\<open>iota\<close> block.
\<close>

datatype UpdateHubState =
    UpdateHubDummyState
  | UpdateHubStateIdle
  | UpdateHubStatePoll
  | UpdateHubStateUpdateCheck
  | UpdateHubStateDownloading
  | UpdateHubStateInstalling
  | UpdateHubStateInstalled
  | UpdateHubStateWaitingForReboot
  | UpdateHubStateExit
  | UpdateHubStateError

text \<open>
  Go's \<^verbatim>\<open>error\<close> values. \<open>ObjectCountError n\<close> is the value built by
  \<^verbatim>\<open>fmt.Errorf("update metadata must have 1 or 2 objects. Found %d", n)\<close>,
  \<open>MergedErrors\<close> the value of \<^verbatim>\<open>utils.MergeErrorList\<close>; every other error is
  carried by its message.
\<close>

datatype error =
    Error string
  | ObjectCountError nat
  | MergedErrors "error list"

text \<open>
  Modelled from the spec: the \<^verbatim>\<open>UpdateHubErrorReporter\<close> values built by
  \<^verbatim>\<open>NewTransientError\<close> and \<^verbatim>\<open>NewFatalError\<close> and their \<^verbatim>\<open>IsFatal\<close>
  method, whose declarations are not among the sources. The specification
  distinguishes exactly the two kinds: a transient cause returns the machine to
  Idle, a fatal cause ends it with Exit(1).
\<close>

datatype cause = TransientError error | FatalError error

fun IsFatal :: "cause \<Rightarrow> bool" where
  "IsFatal (TransientError e) = False"
| "IsFatal (FatalError e) = True"

text \<open>
  A run-time panic of the Go program: indexing a slice out of range, an integer
  division by zero, the explicit \<^verbatim>\<open>panic\<close> of the Exit handler, and
  \<^verbatim>\<open>time.NewTicker\<close> called with a non-positive duration.
\<close>

datatype panic =
    IndexOutOfRange
  | DivideByZero
  | ExitHandlerCalled
  | NonPositiveTicker

text \<open>
  The update metadata: the package UID and the object groups. The objects
  themselves are of an arbitrary type \<open>'o\<close>; their install handlers are part of
  the environment below.
\<close>

record 'o UpdateMetadata =
  PackageUID :: string
  Objects :: "'o list list"

text \<open>
  The states, one constructor for each implementation of the \<^verbatim>\<open>State\<close>
  interface, with the fields of the Go struct that carry data. A Poll state holds
  its interval and its tick count.
\<close>

datatype 'md State =
    IdleState
  | PollState int int
  | UpdateCheckState
  | DownloadingState 'md
  | InstallingState 'md
  | InstalledState 'md
  | WaitingForRebootState 'md
  | ErrorState cause "'md option"
  | ExitState int


text \<open>
  The settings the handlers read and write. Instants (\<^verbatim>\<open>time.Time\<close>) and durations
  (\<^verbatim>\<open>time.Duration\<close>) are integers counting nanoseconds; the retry counter is a
  Go \<^verbatim>\<open>int\<close>, a 64-bit machine integer whose increment wraps around.
\<close>

record Settings =
  PollingEnabled :: bool
  PollingInterval :: int
  ExtraPollingInterval :: int
  FirstPoll :: int
  LastPoll :: int
  PollingRetries :: "64 word"
  DownloadDir :: string

text \<open>
  What the \<^verbatim>\<open>select\<close> of the Poll state's loop can receive: a tick of the ticker
  or a value on the state's cancel channel.
\<close>

datatype poll_event = TickerFired | CancelReceived

text \<open>
  Every call that leaves the state machine (a method of the controller, of an
  object's install handler, of the active/inactive backend, of the sha256 checker,
  of the clock) is recorded, with its result, in a trace.
\<close>

datatype 'o event =
    CalledCheckSupportedHardware "error option"
  | CalledActive int "error option"
  | CalledSha256sum 'o "error option"
  | CalledSetup 'o "error option"
  | CalledProceed 'o bool "error option"
  | CalledInstall 'o "error option"
  | CalledCleanup 'o "error option"
  | CalledSetActive int "error option"
  | CalledCheckUpdate "64 word"
  | CalledFetchUpdate "error option"
  | CalledNow int
  | CalledWait
  | CalledPollEvents "poll_event list"

text \<open>
  The \<^verbatim>\<open>UpdateHub\<close> structure as the handlers use it: the settings, the UID of
  the package whose installation was started last, the tick length of the Poll
  state, the state of everything outside the machine (\<open>world\<close>, of an arbitrary
  type), and the trace.
\<close>

record ('w, 'o) UpdateHub =
  settings :: Settings
  lastInstalledPackageUID :: string
  TimeStep :: int
  world :: 'w
  trace :: "'o event list"

text \<open>
  The collaborators, which the Go code reaches through interfaces: each is a
  function of the world that returns its result and the new world. \<open>Wait\<close>
  is the blocking wait of a cancellable state and \<open>PollEvents\<close> gives the events
  that the Poll state's loop receives until that wait returns; \<open>StopCalled\<close>
  tells whether \<^verbatim>\<open>Daemon.Stop\<close> has been called by now.
\<close>

record ('w, 'o) Env =
  CheckSupportedHardware :: "'o UpdateMetadata \<Rightarrow> 'w \<Rightarrow> error option \<times> 'w"
  Active :: "'w \<Rightarrow> (int \<times> error option) \<times> 'w"
  SetActive :: "int \<Rightarrow> 'w \<Rightarrow> error option \<times> 'w"
  Sha256sum :: "'o \<Rightarrow> string"
  CheckDownloadedObjectSha256sum :: "string \<Rightarrow> string \<Rightarrow> 'w \<Rightarrow> error option \<times> 'w"
  Setup :: "'o \<Rightarrow> 'w \<Rightarrow> error option \<times> 'w"
  Proceed :: "'o \<Rightarrow> 'w \<Rightarrow> (bool \<times> error option) \<times> 'w"
  Install :: "'o \<Rightarrow> string \<Rightarrow> 'w \<Rightarrow> error option \<times> 'w"
  Cleanup :: "'o \<Rightarrow> 'w \<Rightarrow> error option \<times> 'w"
  CheckUpdate :: "64 word \<Rightarrow> 'w \<Rightarrow> ('o UpdateMetadata option \<times> int) \<times> 'w"
  FetchUpdate :: "'o UpdateMetadata \<Rightarrow> 'w \<Rightarrow> error option \<times> 'w"
  Now :: "'w \<Rightarrow> int \<times> 'w"
  Wait :: "'w \<Rightarrow> unit \<times> 'w"
  PollEvents :: "'w \<Rightarrow> poll_event list \<times> 'w"
  ReportCurrentState :: "UpdateHubState \<Rightarrow> 'w \<Rightarrow> error option \<times> 'w"
  StopCalled :: "'w \<Rightarrow> bool"

text \<open>A call: run the collaborator on the world, store the new world, log the event.\<close>

definition call :: "('w \<Rightarrow> 'r \<times> 'w) \<Rightarrow> ('r \<Rightarrow> 'o event) \<Rightarrow> ('w, 'o) UpdateHub \<Rightarrow> 'r \<times> ('w, 'o) UpdateHub" where
  "call f ev uh =
     (let (r, w) = f (world uh)
      in (r, uh\<lparr>world := w, trace := trace uh @ [ev r]\<rparr>))"

section \<open>The Error and Exit states\<close>

definition NewErrorState :: "'md option \<Rightarrow> cause option \<Rightarrow> 'md State" where
  "NewErrorState updateMetadata err =
     (case err of
        None \<Rightarrow> ErrorState (FatalError (Error ''generic error'')) updateMetadata
      | Some c \<Rightarrow> ErrorState c updateMetadata)"

definition ErrorState_Handle :: "cause \<Rightarrow> 'md State" where
  "ErrorState_Handle c = (if IsFatal c then ExitState 1 else IdleState)"

section \<open>The install pipeline\<close>

text \<open>\<^verbatim>\<open>GetIndexOfObjectToBeInstalled\<close>: the group to install, or an error.\<close>

definition GetIndexOfObjectToBeInstalled ::
  "('w, 'o) Env \<Rightarrow> 'o UpdateMetadata \<Rightarrow> ('w, 'o) UpdateHub \<Rightarrow> (error + int) \<times> ('w, 'o) UpdateHub" where
  "GetIndexOfObjectToBeInstalled env um uh =
     (if length (Objects um) < 1 \<or> length (Objects um) > 2
      then (Inl (ObjectCountError (length (Objects um))), uh)
      else if length (Objects um) = 2
      then (let ((activeIndex, err), uh1) = call (Active env) (\<lambda>(i, e). CalledActive i e) uh
            in case err of
                 Some e \<Rightarrow> (Inl e, uh1)
               | None \<Rightarrow> (Inr ((activeIndex - 1) * (- 1)), uh1))
      else (Inr 0, uh))"

definition append_error :: "error list \<Rightarrow> error option \<Rightarrow> error list" where
  "append_error errorList err = (case err of None \<Rightarrow> errorList | Some e \<Rightarrow> errorList @ [e])"

text \<open>
  The body of the loop over the objects of the chosen group. The result is
  \<open>Some s\<close> when the body returns the state \<open>s\<close> from the handler and \<open>None\<close>
  when the loop goes on to the next object.
\<close>

definition install_object ::
  "('w, 'o) Env \<Rightarrow> 'o UpdateMetadata \<Rightarrow> int \<Rightarrow> 'o \<Rightarrow> ('w, 'o) UpdateHub
     \<Rightarrow> 'o UpdateMetadata State option \<times> ('w, 'o) UpdateHub" where
  "install_object env um indexToInstall ob uh =
     (let (err, uh1) = call (CheckDownloadedObjectSha256sum env (DownloadDir (settings uh)) (Sha256sum env ob))
                            (CalledSha256sum ob) uh
      in case err of
           Some e \<Rightarrow> (Some (NewErrorState (Some um) (Some (TransientError e))), uh1)
         | None \<Rightarrow>
      (let (err, uh2) = call (Setup env ob) (CalledSetup ob) uh1
       in case err of
            Some e \<Rightarrow> (Some (NewErrorState (Some um) (Some (TransientError e))), uh2)
          | None \<Rightarrow>
       (let errorList = [];
            ((install, err), uh3) = call (Proceed env ob) (\<lambda>(b, e). CalledProceed ob b e) uh2;
            errorList = append_error errorList err;
            (errorList, uh4) =
               (if install
                then (let (err, uh') = call (Install env ob (DownloadDir (settings uh3))) (CalledInstall ob) uh3
                      in (append_error errorList err, uh'))
                else (errorList, uh3));
            (err, uh5) = call (Cleanup env ob) (CalledCleanup ob) uh4;
            errorList = append_error errorList err
        in if length errorList > 0
           then (Some (NewErrorState (Some um) (Some (TransientError (MergedErrors errorList)))), uh5)
           else if length (Objects um) = 2
           then (let (err, uh6) = call (SetActive env indexToInstall) (CalledSetActive indexToInstall) uh5
                 in case err of
                      Some e \<Rightarrow> (Some (NewErrorState (Some um) (Some (TransientError e))), uh6)
                    | None \<Rightarrow> (None, uh6))
           else (None, uh5))))"

fun install_objects ::
  "('w, 'o) Env \<Rightarrow> 'o UpdateMetadata \<Rightarrow> int \<Rightarrow> 'o list \<Rightarrow> ('w, 'o) UpdateHub
     \<Rightarrow> 'o UpdateMetadata State \<times> ('w, 'o) UpdateHub" where
  "install_objects env um indexToInstall [] uh = (InstalledState um, uh)"
| "install_objects env um indexToInstall (ob # obs) uh =
     (case install_object env um indexToInstall ob uh of
        (Some s, uh') \<Rightarrow> (s, uh')
      | (None, uh') \<Rightarrow> install_objects env um indexToInstall obs uh')"

text \<open>
  \<^verbatim>\<open>InstallingState.Handle\<close>. Indexing \<^verbatim>\<open>Objects[indexToInstall]\<close> panics when
  the index is out of range, which happens when the backend reports an active
  index other than 0 or 1.
\<close>

definition InstallingState_Handle ::
  "('w, 'o) Env \<Rightarrow> 'o UpdateMetadata \<Rightarrow> ('w, 'o) UpdateHub
     \<Rightarrow> panic + ('o UpdateMetadata State \<times> ('w, 'o) UpdateHub)" where
  "InstallingState_Handle env um uh =
     (let packageUID = PackageUID um
      in if packageUID = lastInstalledPackageUID uh
         then Inr (WaitingForRebootState um, uh)
         else
      (let uh0 = uh\<lparr>lastInstalledPackageUID := packageUID\<rparr>;
           (err, uh1) = call (CheckSupportedHardware env um) CalledCheckSupportedHardware uh0
       in case err of
            Some e \<Rightarrow> Inr (NewErrorState (Some um) (Some (TransientError e)), uh1)
          | None \<Rightarrow>
       (case GetIndexOfObjectToBeInstalled env um uh1 of
          (Inl e, uh2) \<Rightarrow> Inr (NewErrorState (Some um) (Some (TransientError e)), uh2)
        | (Inr indexToInstall, uh2) \<Rightarrow>
            if 0 \<le> indexToInstall \<and> nat indexToInstall < length (Objects um)
            then Inr (install_objects env um indexToInstall (Objects um ! nat indexToInstall) uh2)
            else Inl IndexOutOfRange)))"

section \<open>The UpdateCheck state\<close>

text \<open>
  \<^verbatim>\<open>t.Unix()\<close>, the whole seconds of an instant, and \<^verbatim>\<open>time.Unix(sec, nsec)\<close>,
  the instant of a count of seconds and nanoseconds.
\<close>

definition Unix :: "int \<Rightarrow> int" where
  "Unix t = t div 1000000000"

definition time_Unix :: "int \<Rightarrow> int \<Rightarrow> int" where
  "time_Unix sec nsec = sec * 1000000000 + nsec"

text \<open>\<^verbatim>\<open>NewPollState\<close>: the interval is the polling interval, the tick count is zero.\<close>

definition NewPollState :: "('w, 'o) UpdateHub \<Rightarrow> 'md State" where
  "NewPollState uh = PollState (PollingInterval (settings uh)) 0"

text \<open>
  The loop \<^verbatim>\<open>for nextPoll.Before(now) { nextPoll = nextPoll.Add(PollingInterval) }\<close>.
  It need not terminate: the result \<open>None\<close> stands for a loop that runs forever.
\<close>

partial_function (option) next_poll_loop :: "int \<Rightarrow> int \<Rightarrow> int \<Rightarrow> int option" where
  "next_poll_loop interval now nextPoll =
     (if nextPoll < now then next_poll_loop interval now (nextPoll + interval) else Some nextPoll)"

text \<open>
  \<^verbatim>\<open>UpdateCheckState.Handle\<close>. The result is \<open>None\<close> when the handler does not
  return.
\<close>

definition UpdateCheckState_Handle ::
  "('w, 'o) Env \<Rightarrow> ('w, 'o) UpdateHub \<Rightarrow> ('o UpdateMetadata State \<times> ('w, 'o) UpdateHub) option" where
  "UpdateCheckState_Handle env uh =
     (let ((updateMetadata, extraPoll), uh1) =
             call (CheckUpdate env (PollingRetries (settings uh)))
                  (\<lambda>r. CalledCheckUpdate (PollingRetries (settings uh))) uh;
          uh2 = (if extraPoll \<noteq> - 1
                 then uh1\<lparr>settings := (settings uh1)\<lparr>PollingRetries := 0\<rparr>\<rparr>
                 else uh1);
          (t, uh3) = call (Now env) CalledNow uh2;
          uh4 = uh3\<lparr>settings := (settings uh3)\<lparr>LastPoll := t\<rparr>\<rparr>;
          uh5 = uh4\<lparr>settings := (settings uh4)\<lparr>ExtraPollingInterval := 0\<rparr>\<rparr>
      in case updateMetadata of
           Some um \<Rightarrow> Some (DownloadingState um, uh5)
         | None \<Rightarrow>
             if extraPoll > 0
             then (let (now, uh6) = call (Now env) CalledNow uh5;
                       nextPoll = time_Unix (Unix (FirstPoll (settings uh6))) 0;
                       extraPollTime = now + extraPoll
                   in case next_poll_loop (PollingInterval (settings uh6)) now nextPoll of
                        None \<Rightarrow> None
                      | Some nextPoll \<Rightarrow>
                          if extraPollTime < nextPoll
                          then (let uh7 = uh6\<lparr>settings := (settings uh6)\<lparr>ExtraPollingInterval := extraPoll\<rparr>\<rparr>
                                in Some (case NewPollState uh7 of
                                           PollState interval ticksCount \<Rightarrow> PollState extraPoll ticksCount
                                         | poll \<Rightarrow> poll,
                                         uh7))
                          else Some (IdleState,
                                     uh6\<lparr>settings := (settings uh6)\<lparr>PollingRetries := PollingRetries (settings uh6) + 1\<rparr>\<rparr>))
             else Some (IdleState,
                        uh5\<lparr>settings := (settings uh5)\<lparr>PollingRetries := PollingRetries (settings uh5) + 1\<rparr>\<rparr>))"

declare next_poll_loop.simps [code]

section \<open>The Poll state\<close>

text \<open>
  Go's integer division and remainder on \<^verbatim>\<open>int64\<close>: they panic on a zero divisor,
  the quotient is truncated towards zero and the remainder has the sign of the
  dividend.
\<close>

definition go_quot :: "int \<Rightarrow> int \<Rightarrow> panic + int" where
  "go_quot a b = (if b = 0 then Inl DivideByZero else Inr (sgn a * sgn b * (\<bar>a\<bar> div \<bar>b\<bar>)))"

definition go_rem :: "int \<Rightarrow> int \<Rightarrow> panic + int" where
  "go_rem a b = (if b = 0 then Inl DivideByZero else Inr (sgn a * (\<bar>a\<bar> mod \<bar>b\<bar>)))"

text \<open>
  The value of an \<^verbatim>\<open>int64\<close> computation: the mathematical result, wrapped around
  into the range from \<open>- 2 ^ 63\<close> to \<open>2 ^ 63 - 1\<close>.
\<close>

definition wrap_int64 :: "int \<Rightarrow> int" where
  "wrap_int64 x = (x + 2 ^ 63) mod 2 ^ 64 - 2 ^ 63"

text \<open>
  The loop of the goroutine started by \<^verbatim>\<open>PollState.Handle\<close>, run on the events
  that its \<^verbatim>\<open>select\<close> receives. Each iteration first creates a ticker, which
  panics for a tick length that is not positive. On a tick the count is incremented
  and, when it is positive, compared with the quotient of the interval by the tick
  length; a value on the cancel channel only leaves the \<^verbatim>\<open>select\<close>. The outcome
  is \<open>PollUpdateCheck ticks\<close> when the loop has set the next state to UpdateCheck
  and stored the tick count, \<open>PollWaiting ticks\<close> when the events are used up and
  the loop is still waiting, \<open>PollPanicked\<close> when it has panicked. The tick count
  is an \<^verbatim>\<open>int64\<close>: its increment wraps around.
\<close>

datatype poll_outcome = PollUpdateCheck int | PollWaiting int | PollPanicked panic

fun PollState_loop :: "int \<Rightarrow> int \<Rightarrow> int \<Rightarrow> poll_event list \<Rightarrow> poll_outcome" where
  "PollState_loop timeStep interval ticks [] =
     (if timeStep \<le> 0 then PollPanicked NonPositiveTicker else PollWaiting ticks)"
| "PollState_loop timeStep interval ticks (TickerFired # evs) =
     (if timeStep \<le> 0 then PollPanicked NonPositiveTicker
      else (let ticks = wrap_int64 (ticks + 1)
            in if ticks > 0
               then (case go_quot interval timeStep of
                       Inl p \<Rightarrow> PollPanicked p
                     | Inr n \<Rightarrow>
                         (case go_rem ticks n of
                            Inl p \<Rightarrow> PollPanicked p
                          | Inr r \<Rightarrow>
                              if r = 0 then PollUpdateCheck ticks
                              else PollState_loop timeStep interval ticks evs))
               else PollState_loop timeStep interval ticks evs))"
| "PollState_loop timeStep interval ticks (CancelReceived # evs) =
     (if timeStep \<le> 0 then PollPanicked NonPositiveTicker
      else PollState_loop timeStep interval ticks evs)"

section \<open>The remaining states and the daemon loop\<close>





text \<open>
  The daemon: the \<^verbatim>\<open>UpdateHub\<close> structure, its current state, the stop flag, and
  a journal of the calls the loop itself makes, \<^verbatim>\<open>ReportCurrentState\<close> (with its
  result) and \<^verbatim>\<open>Handle\<close>, each with the id of the state it is made for.
\<close>

datatype daemon_event = Reported UpdateHubState "error option" | Handled UpdateHubState





text \<open>
  A journal in which every call of a handler comes right after a report of the
  same state, and nothing else occurs.
\<close>

fun reports_precede_handles :: "daemon_event list \<Rightarrow> bool" where
  "reports_precede_handles [] = True"
| "reports_precede_handles (Reported i r # Handled j # es) = (i = j \<and> reports_precede_handles es)"
| "reports_precede_handles es = False"


section \<open>The update client\<close>

text \<open>
  The parts of an HTTP response that \<^verbatim>\<open>client/update.go\<close> reads: the status code,
  the header map, and the result of reading the body. An API requester is given by
  what it answers: whether building the request fails, and the response or error
  of \<^verbatim>\<open>Do\<close>.
\<close>

record Response =
  StatusCode :: int
  Header :: "string \<Rightarrow> string list option"
  Body :: "error + string"

record ApiRequester =
  NewRequest :: "error option"
  Do :: "error + Response"

text \<open>
  \<^verbatim>\<open>processUpgradeResponse\<close>; the parser of the body,
  \<^verbatim>\<open>metadata.NewUpdateMetadata\<close>, is a parameter.
\<close>

definition processUpgradeResponse ::
  "(string \<Rightarrow> error + 'md) \<Rightarrow> Response \<Rightarrow> 'md option \<times> error option" where
  "processUpgradeResponse NewUpdateMetadata res =
     (case Body res of
        Inl e \<Rightarrow> (None, Some (Error ''error reading response body''))
      | Inr body \<Rightarrow>
          if StatusCode res = 200
          then (case NewUpdateMetadata body of
                  Inl e \<Rightarrow> (None, Some (Error ''failed to parse upgrade response''))
                | Inr data \<Rightarrow> (Some data, None))
          else if StatusCode res = 404
          then (None, None)
          else (None, Some (Error ''invalid response received from the server'')))"

text \<open>
  \<^verbatim>\<open>strconv.ParseInt(s, 10, 0)\<close> of Go's library: an optional sign, then one or
  more decimal digits, with a value in the range of a 64-bit \<^verbatim>\<open>int\<close>; anything
  else is an error (\<open>None\<close>).
\<close>

definition is_digit :: "char \<Rightarrow> bool" where
  "is_digit c = (48 \<le> (of_char c :: int) \<and> (of_char c :: int) \<le> 57)"

definition digit_value :: "char \<Rightarrow> int" where
  "digit_value c = of_char c - 48"

definition ParseInt :: "string \<Rightarrow> int option" where
  "ParseInt s =
     (if s = [] then None
      else (let neg = (hd s = CHR ''-'');
                ds = (if hd s = CHR ''+'' \<or> hd s = CHR ''-'' then tl s else s)
            in if ds = [] \<or> \<not> list_all is_digit ds then None
               else (let un = foldl (\<lambda>n c. n * 10 + digit_value c) 0 ds
                     in if \<not> neg \<and> un \<ge> 2 ^ 63 then None
                        else if neg \<and> un > 2 ^ 63 then None
                        else Some (if neg then - un else un))))"

text \<open>\<^verbatim>\<open>time.Second\<close>, as a count of nanoseconds.\<close>

definition Second :: int where
  "Second = 1000000000"

text \<open>
  \<^verbatim>\<open>UpdateClient.CheckUpdate\<close>: the descriptor, the extra poll as the
  \<^verbatim>\<open>time.Duration\<close> made of the parsed integer as it is, and the error. The values
  of the header are joined without separator before they are parsed.
\<close>

definition UpdateClient_CheckUpdate ::
  "(string \<Rightarrow> error + 'md) \<Rightarrow> ApiRequester option \<Rightarrow> 'md option \<times> int \<times> error option" where
  "UpdateClient_CheckUpdate NewUpdateMetadata api =
     (case api of
        None \<Rightarrow> (None, 0, Some (Error ''invalid api requester''))
      | Some a \<Rightarrow>
          (case NewRequest a of
             Some e \<Rightarrow> (None, 0, Some (Error ''failed to create check update request''))
           | None \<Rightarrow>
               (case Do a of
                  Inl e \<Rightarrow> (None, 0, Some (Error ''check update request failed''))
                | Inr res \<Rightarrow>
                    (let extraPoll = 0;
                         (r, err) = processUpgradeResponse NewUpdateMetadata res
                     in if err = None
                        then (case Header res ''Add-Extra-Poll'' of
                                Some v \<Rightarrow>
                                  (case ParseInt (concat v) of
                                     None \<Rightarrow> (None, 0, Some (Error ''failed to parse extra poll header''))
                                   | Some n \<Rightarrow> (r, n, err))
                              | None \<Rightarrow> (r, extraPoll, err))
                        else (r, extraPoll, err)))))"

section \<open>Predicates on traces\<close>

text \<open>
  Predicates on traces. \<open>cleaned_up\<close> holds of a trace in which every Setup that
  succeeded is followed, later in the trace, by a Cleanup of the same object.
\<close>

fun is_Cleanup_of :: "'o \<Rightarrow> 'o event \<Rightarrow> bool" where
  "is_Cleanup_of ob (CalledCleanup ob' r) = (ob' = ob)"
| "is_Cleanup_of ob e = False"

fun setup_of :: "'o event \<Rightarrow> 'o option" where
  "setup_of (CalledSetup ob None) = Some ob"
| "setup_of e = None"

fun cleaned_up :: "'o event list \<Rightarrow> bool" where
  "cleaned_up [] = True"
| "cleaned_up (e # es) =
     ((case setup_of e of None \<Rightarrow> True | Some ob \<Rightarrow> list_ex (is_Cleanup_of ob) es) \<and> cleaned_up es)"

text \<open>
  \<open>failed_setup_last\<close> holds of a trace in which a Setup that failed can only be
  the last event; \<open>no_failed_setup\<close> of a trace without a failed Setup.
\<close>

fun failed_setup_of :: "'o event \<Rightarrow> ('o \<times> error) option" where
  "failed_setup_of (CalledSetup ob (Some e)) = Some (ob, e)"
| "failed_setup_of ev = None"

fun failed_setup_last :: "'o event list \<Rightarrow> bool" where
  "failed_setup_last [] = True"
| "failed_setup_last (ev # evs) = ((failed_setup_of ev = None \<or> evs = []) \<and> failed_setup_last evs)"

definition no_failed_setup :: "'o event list \<Rightarrow> bool" where
  "no_failed_setup evs = list_all (\<lambda>ev. failed_setup_of ev = None) evs"

section \<open>A concrete environment\<close>

text \<open>
  An environment for running the handlers on concrete inputs. The world is a
  counter of the calls made, which the clock reads; objects are named by strings;
  Setup fails for the object \<open>''bad-setup''\<close> and Install for \<open>''bad-install''\<close>;
  the active slot is 0.
\<close>

definition example_env :: "(int, string) Env" where
  "example_env =
     \<lparr> CheckSupportedHardware = (\<lambda>um w. (None, w + 1)),
       Active = (\<lambda>w. ((0, None), w + 1)),
       SetActive = (\<lambda>i w. (None, w + 1)),
       Sha256sum = (\<lambda>ob. ob),
       CheckDownloadedObjectSha256sum = (\<lambda>dir sha w. (None, w + 1)),
       Setup = (\<lambda>ob w. (if ob = ''bad-setup'' then Some (Error ''setup failed'') else None, w + 1)),
       Proceed = (\<lambda>ob w. ((True, None), w + 1)),
       Install = (\<lambda>ob dir w. (if ob = ''bad-install'' then Some (Error ''install failed'') else None, w + 1)),
       Cleanup = (\<lambda>ob w. (None, w + 1)),
       CheckUpdate = (\<lambda>retries w. ((None, 0), w + 1)),
       FetchUpdate = (\<lambda>um w. (None, w + 1)),
       Now = (\<lambda>w. (w, w)),
       Wait = (\<lambda>w. ((), w + 1)),
       PollEvents = (\<lambda>w. (replicate 10 TickerFired, w + 10)),
       ReportCurrentState = (\<lambda>st w. (None, w)),
       StopCalled = (\<lambda>w. False) \<rparr>"

definition example_settings :: Settings where
  "example_settings =
     \<lparr> PollingEnabled = True, PollingInterval = 10, ExtraPollingInterval = 0,
       FirstPoll = 0, LastPoll = 0, PollingRetries = 0, DownloadDir = ''/tmp/download'' \<rparr>"

definition example_uh :: "(int, string) UpdateHub" where
  "example_uh =
     \<lparr> settings = example_settings, lastInstalledPackageUID = ''p0'', TimeStep = 1,
       world = 0, trace = [] \<rparr>"

text \<open>
  Variants of the environment and of the \<^verbatim>\<open>UpdateHub\<close> structure: a controller
  whose probe returns a given descriptor and extra poll and takes a given time,
  a given retry count, a given polling interval.
\<close>

definition example_probe_env :: "string UpdateMetadata option \<Rightarrow> int \<Rightarrow> int \<Rightarrow> (int, string) Env" where
  "example_probe_env um extraPoll delay =
     example_env\<lparr>CheckUpdate := (\<lambda>retries w. ((um, extraPoll), w + delay))\<rparr>"

definition example_uh_retries :: "64 word \<Rightarrow> (int, string) UpdateHub" where
  "example_uh_retries n = example_uh\<lparr>settings := example_settings\<lparr>PollingRetries := n\<rparr>\<rparr>"

definition example_uh_interval :: "int \<Rightarrow> (int, string) UpdateHub" where
  "example_uh_interval i = example_uh\<lparr>settings := example_settings\<lparr>PollingInterval := i\<rparr>\<rparr>"



text \<open>
  A response with a given status and a given \<^verbatim>\<open>Add-Extra-Poll\<close> header, a body
  parser that always succeeds, and a requester that answers with a given response.
\<close>

definition example_response :: "int \<Rightarrow> string list option \<Rightarrow> Response" where
  "example_response status extra =
     \<lparr> StatusCode = status, Header = (Map.empty(''Add-Extra-Poll'' := extra)), Body = Inr ''body'' \<rparr>"

definition example_parse :: "string \<Rightarrow> error + string UpdateMetadata" where
  "example_parse body = Inr \<lparr>PackageUID = body, Objects = [[''a'']]\<rparr>"

definition example_api :: "Response \<Rightarrow> ApiRequester option" where
  "example_api res = Some \<lparr> NewRequest = None, Do = Inr res \<rparr>"

section \<open>Properties of the install pipeline\<close>

lemma call_trace: "call f ev uh = (r, uh') \<Longrightarrow> trace uh' = trace uh @ [ev r]"
  by (auto simp: call_def split: prod.splits)

lemma call_settings: "call f ev uh = (r, uh') \<Longrightarrow> settings uh' = settings uh"
  by (auto simp: call_def split: prod.splits)

lemma list_ex_append_r: "list_ex P xs \<Longrightarrow> list_ex P (xs @ ys)"
  by (induction xs) auto

lemma cleaned_up_append: "cleaned_up xs \<Longrightarrow> cleaned_up ys \<Longrightarrow> cleaned_up (xs @ ys)"
  by (induction xs) (auto split: option.splits intro: list_ex_append_r)

lemma is_Cleanup_of_iff: "is_Cleanup_of ob e \<longleftrightarrow> (\<exists>r. e = CalledCleanup ob r)"
  by (cases e) auto

lemma setup_of_Some: "setup_of e = Some ob \<longleftrightarrow> e = CalledSetup ob None"
  by (cases e; cases "case e of CalledSetup _ r \<Rightarrow> r | _ \<Rightarrow> None") auto

lemma cleaned_up_decomp:
  "cleaned_up tr \<Longrightarrow> tr = pre @ CalledSetup ob None # post \<Longrightarrow> \<exists>r. CalledCleanup ob r \<in> set post"
proof (induction pre arbitrary: tr)
  case Nil
  then have "list_ex (is_Cleanup_of ob) post" by simp
  then show ?case by (auto simp: list_ex_iff is_Cleanup_of_iff)
next
  case (Cons a pre)
  then show ?case by auto
qed

lemma install_object_trace:
  assumes "install_object env um idx ob uh = (res, uh')"
  shows "\<exists>seg. trace uh' = trace uh @ seg \<and> cleaned_up seg"
  using assms
  by (auto simp: install_object_def Let_def append_error_def
           split: prod.splits option.splits if_splits dest!: call_trace)

lemma install_objects_trace:
  "install_objects env um idx obs uh = (s, uh') \<Longrightarrow> \<exists>seg. trace uh' = trace uh @ seg \<and> cleaned_up seg"
proof (induction obs arbitrary: uh)
  case Nil
  then show ?case by simp
next
  case (Cons ob obs)
  obtain res uh1 where io: "install_object env um idx ob uh = (res, uh1)"
    by (cases "install_object env um idx ob uh")
  from install_object_trace [OF io] obtain seg1
    where s1: "trace uh1 = trace uh @ seg1" "cleaned_up seg1" by blast
  show ?case
  proof (cases res)
    case None
    with Cons.prems io have "install_objects env um idx obs uh1 = (s, uh')" by simp
    from Cons.IH [OF this] obtain seg2
      where s2: "trace uh' = trace uh1 @ seg2" "cleaned_up seg2" by blast
    from s1 s2 have "trace uh' = trace uh @ (seg1 @ seg2)" "cleaned_up (seg1 @ seg2)"
      by (simp_all add: cleaned_up_append)
    then show ?thesis by blast
  next
    case (Some st)
    with Cons.prems io have "uh' = uh1" by simp
    with s1 show ?thesis by blast
  qed
qed

lemma GetIndex_trace:
  "GetIndexOfObjectToBeInstalled env um uh = (r, uh') \<Longrightarrow>
     \<exists>seg. trace uh' = trace uh @ seg \<and> cleaned_up seg"
  by (auto simp: GetIndexOfObjectToBeInstalled_def Let_def
           split: prod.splits option.splits if_splits dest!: call_trace)

lemma InstallingState_Handle_trace:
  assumes "InstallingState_Handle env um uh = Inr (s, uh')"
  shows "\<exists>seg. trace uh' = trace uh @ seg \<and> cleaned_up seg"
proof (cases "PackageUID um = lastInstalledPackageUID uh")
  case True
  with assms have "uh' = uh" by (simp add: InstallingState_Handle_def)
  then show ?thesis by simp
next
  case False
  obtain err uh1 where c1: "call (CheckSupportedHardware env um) CalledCheckSupportedHardware
      (uh\<lparr>lastInstalledPackageUID := PackageUID um\<rparr>) = (err, uh1)"
    by (cases "call (CheckSupportedHardware env um) CalledCheckSupportedHardware
      (uh\<lparr>lastInstalledPackageUID := PackageUID um\<rparr>)")
  from call_trace [OF c1] have t1: "trace uh1 = trace uh @ [CalledCheckSupportedHardware err]" by simp
  show ?thesis
  proof (cases err)
    case (Some e)
    with assms False c1 have "uh' = uh1" by (simp add: InstallingState_Handle_def Let_def)
    with t1 show ?thesis by simp
  next
    case None
    obtain r uh2 where g: "GetIndexOfObjectToBeInstalled env um uh1 = (r, uh2)"
      by (cases "GetIndexOfObjectToBeInstalled env um uh1")
    from GetIndex_trace [OF g] obtain seg2
      where t2: "trace uh2 = trace uh1 @ seg2" "cleaned_up seg2" by blast
    show ?thesis
    proof (cases r)
      case (Inl e)
      with assms False c1 None g have "uh' = uh2" by (simp add: InstallingState_Handle_def Let_def)
      with t1 t2 have "trace uh' = trace uh @ (CalledCheckSupportedHardware err # seg2)"
        "cleaned_up (CalledCheckSupportedHardware err # seg2)" by simp_all
      then show ?thesis by blast
    next
      case (Inr i)
      with assms False c1 None g
      have "install_objects env um i (Objects um ! nat i) uh2 = (s, uh')"
        by (simp add: InstallingState_Handle_def Let_def split: if_splits)
      from install_objects_trace [OF this] obtain seg3
        where t3: "trace uh' = trace uh2 @ seg3" "cleaned_up seg3" by blast
      from t1 t2 t3 have "trace uh' = trace uh @ (CalledCheckSupportedHardware err # seg2 @ seg3)"
        "cleaned_up (CalledCheckSupportedHardware err # seg2 @ seg3)"
        by (simp_all add: cleaned_up_append)
      then show ?thesis by blast
    qed
  qed
qed

lemma failed_setup_last_append:
  "no_failed_setup xs \<Longrightarrow> failed_setup_last ys \<Longrightarrow> failed_setup_last (xs @ ys)"
  by (induction xs) (auto simp: no_failed_setup_def)

lemma no_failed_setup_last:
  "no_failed_setup xs \<Longrightarrow> xs \<noteq> [] \<Longrightarrow> last xs \<noteq> CalledSetup ob (Some e)"
  by (induction xs) (auto simp: no_failed_setup_def)

lemma failed_setup_last_decomp:
  "failed_setup_last seg \<Longrightarrow> seg = pre @ CalledSetup ob (Some e) # post \<Longrightarrow> post = []"
  by (induction pre arbitrary: seg) auto

lemma install_object_failed_setup:
  assumes "install_object env um idx ob uh = (res, uh')"
  shows "\<exists>seg. trace uh' = trace uh @ seg \<and> failed_setup_last seg
           \<and> (res = None \<longrightarrow> no_failed_setup seg)
           \<and> (\<forall>ob' e. seg \<noteq> [] \<and> last seg = CalledSetup ob' (Some e)
                 \<longrightarrow> res = Some (ErrorState (TransientError e) (Some um)))"
  using assms
  by (auto simp: install_object_def Let_def append_error_def NewErrorState_def no_failed_setup_def
           split: prod.splits option.splits if_splits dest!: call_trace)

lemma install_objects_failed_setup:
  "install_objects env um idx obs uh = (s, uh') \<Longrightarrow>
     \<exists>seg. trace uh' = trace uh @ seg \<and> failed_setup_last seg
          \<and> (\<forall>ob e. seg \<noteq> [] \<and> last seg = CalledSetup ob (Some e)
                \<longrightarrow> s = ErrorState (TransientError e) (Some um))"
proof (induction obs arbitrary: uh)
  case Nil
  then show ?case by simp
next
  case (Cons ob obs)
  obtain res uh1 where io: "install_object env um idx ob uh = (res, uh1)"
    by (cases "install_object env um idx ob uh")
  from install_object_failed_setup [OF io] obtain seg1
    where s1: "trace uh1 = trace uh @ seg1" "failed_setup_last seg1"
      "res = None \<longrightarrow> no_failed_setup seg1"
      "\<forall>ob' e. seg1 \<noteq> [] \<and> last seg1 = CalledSetup ob' (Some e)
                 \<longrightarrow> res = Some (ErrorState (TransientError e) (Some um))"
    by blast
  show ?case
  proof (cases res)
    case None
    with Cons.prems io have "install_objects env um idx obs uh1 = (s, uh')" by simp
    from Cons.IH [OF this] obtain seg2
      where s2: "trace uh' = trace uh1 @ seg2" "failed_setup_last seg2"
        "\<forall>ob e. seg2 \<noteq> [] \<and> last seg2 = CalledSetup ob (Some e)
                \<longrightarrow> s = ErrorState (TransientError e) (Some um)"
      by blast
    from None s1 have nf: "no_failed_setup seg1" by simp
    have a: "trace uh' = trace uh @ (seg1 @ seg2)" using s1 s2 by simp
    have b: "failed_setup_last (seg1 @ seg2)" using nf s2 by (simp add: failed_setup_last_append)
    have c: "\<forall>ob e. seg1 @ seg2 \<noteq> [] \<and> last (seg1 @ seg2) = CalledSetup ob (Some e)
                \<longrightarrow> s = ErrorState (TransientError e) (Some um)"
    proof (cases "seg2 = []")
      case True
      with nf show ?thesis using no_failed_setup_last [of seg1] by auto
    next
      case False
      with s2(3) show ?thesis by simp
    qed
    from a b c show ?thesis by blast
  next
    case (Some st)
    with Cons.prems io have "uh' = uh1" "s = st" by simp_all
    with s1 Some show ?thesis by blast
  qed
qed

lemma GetIndex_no_failed_setup:
  "GetIndexOfObjectToBeInstalled env um uh = (r, uh') \<Longrightarrow>
     \<exists>seg. trace uh' = trace uh @ seg \<and> no_failed_setup seg"
  by (auto simp: GetIndexOfObjectToBeInstalled_def Let_def no_failed_setup_def
           split: prod.splits option.splits if_splits dest!: call_trace)

lemma InstallingState_Handle_failed_setup:
  assumes "InstallingState_Handle env um uh = Inr (s, uh')"
  shows "\<exists>seg. trace uh' = trace uh @ seg \<and> failed_setup_last seg
          \<and> (\<forall>ob e. seg \<noteq> [] \<and> last seg = CalledSetup ob (Some e)
                \<longrightarrow> s = ErrorState (TransientError e) (Some um))"
proof (cases "PackageUID um = lastInstalledPackageUID uh")
  case True
  with assms have "uh' = uh" by (simp add: InstallingState_Handle_def)
  then show ?thesis by simp
next
  case False
  obtain err uh1 where c1: "call (CheckSupportedHardware env um) CalledCheckSupportedHardware
      (uh\<lparr>lastInstalledPackageUID := PackageUID um\<rparr>) = (err, uh1)"
    by (cases "call (CheckSupportedHardware env um) CalledCheckSupportedHardware
      (uh\<lparr>lastInstalledPackageUID := PackageUID um\<rparr>)")
  from call_trace [OF c1] have t1: "trace uh1 = trace uh @ [CalledCheckSupportedHardware err]" by simp
  show ?thesis
  proof (cases err)
    case (Some e)
    with assms False c1 have "uh' = uh1" by (simp add: InstallingState_Handle_def Let_def)
    with t1 show ?thesis by simp
  next
    case None
    obtain r uh2 where g: "GetIndexOfObjectToBeInstalled env um uh1 = (r, uh2)"
      by (cases "GetIndexOfObjectToBeInstalled env um uh1")
    from GetIndex_no_failed_setup [OF g] obtain seg2
      where t2: "trace uh2 = trace uh1 @ seg2" "no_failed_setup seg2" by blast
    let ?pre = "CalledCheckSupportedHardware err # seg2"
    have nf: "no_failed_setup ?pre" using t2 by (simp add: no_failed_setup_def)
    have tp: "trace uh2 = trace uh @ ?pre" using t1 t2 by simp
    show ?thesis
    proof (cases r)
      case (Inl e)
      with assms False c1 None g have "uh' = uh2" by (simp add: InstallingState_Handle_def Let_def)
      moreover have "failed_setup_last ?pre"
        using failed_setup_last_append [OF nf, of "[]"] by simp
      moreover have "\<forall>ob e. last ?pre \<noteq> CalledSetup ob (Some e)"
        using no_failed_setup_last [OF nf] by simp
      ultimately show ?thesis using tp by auto
    next
      case (Inr i)
      with assms False c1 None g
      have "install_objects env um i (Objects um ! nat i) uh2 = (s, uh')"
        by (simp add: InstallingState_Handle_def Let_def split: if_splits)
      from install_objects_failed_setup [OF this] obtain seg3
        where t3: "trace uh' = trace uh2 @ seg3" "failed_setup_last seg3"
          "\<forall>ob e. seg3 \<noteq> [] \<and> last seg3 = CalledSetup ob (Some e)
                \<longrightarrow> s = ErrorState (TransientError e) (Some um)"
        by blast
      have a: "trace uh' = trace uh @ (?pre @ seg3)" using tp t3 by simp
      have b: "failed_setup_last (?pre @ seg3)" using nf t3 by (rule_tac failed_setup_last_append)
      have c: "\<forall>ob e. ?pre @ seg3 \<noteq> [] \<and> last (?pre @ seg3) = CalledSetup ob (Some e)
                \<longrightarrow> s = ErrorState (TransientError e) (Some um)"
      proof (cases "seg3 = []")
        case True
        then show ?thesis using no_failed_setup_last [OF nf] by simp
      next
        case False
        with t3(3) show ?thesis by simp
      qed
      from a b c show ?thesis by blast
    qed
  qed
qed

text \<open>
  Claim C1, as amended. In a run of the Installing handler, every object whose
  Setup was called and succeeded has its Cleanup called later in the same run,
  whatever the InstallIfDifferent check and Install returned: whenever the events
  of the run contain a successful Setup of an object, a Cleanup of that object
  occurs among the events after it. And whenever the events of the run contain a
  Setup that failed, it is the last event of the run, so no Cleanup follows it,
  and the handler returns the Error state with that error as transient cause.
\<close>

theorem installing_cleanup_after_successful_setup:
  assumes "InstallingState_Handle env um uh = Inr (s, uh')"
  shows "(trace uh' = trace uh @ pre @ CalledSetup ob None # post
            \<longrightarrow> (\<exists>r. CalledCleanup ob r \<in> set post))
       \<and> (trace uh' = trace uh @ pre @ CalledSetup ob (Some e) # post
            \<longrightarrow> post = [] \<and> s = ErrorState (TransientError e) (Some um))"
proof (rule conjI)
  show "trace uh' = trace uh @ pre @ CalledSetup ob None # post
          \<longrightarrow> (\<exists>r. CalledCleanup ob r \<in> set post)"
  proof (rule impI)
    assume d: "trace uh' = trace uh @ pre @ CalledSetup ob None # post"
    from InstallingState_Handle_trace [OF assms] obtain seg
      where "trace uh' = trace uh @ seg" "cleaned_up seg" by blast
    with d have "seg = pre @ CalledSetup ob None # post" by simp
    with \<open>cleaned_up seg\<close> show "\<exists>r. CalledCleanup ob r \<in> set post" by (rule cleaned_up_decomp)
  qed
next
  show "trace uh' = trace uh @ pre @ CalledSetup ob (Some e) # post
          \<longrightarrow> post = [] \<and> s = ErrorState (TransientError e) (Some um)"
  proof (rule impI)
    assume d: "trace uh' = trace uh @ pre @ CalledSetup ob (Some e) # post"
    from InstallingState_Handle_failed_setup [OF assms] obtain seg
      where seg: "trace uh' = trace uh @ seg" "failed_setup_last seg"
        "\<forall>ob e. seg \<noteq> [] \<and> last seg = CalledSetup ob (Some e)
                  \<longrightarrow> s = ErrorState (TransientError e) (Some um)"
      by blast
    with d have eq: "seg = pre @ CalledSetup ob (Some e) # post" by simp
    with seg(2) have p: "post = []" by (rule failed_setup_last_decomp)
    with eq have "seg \<noteq> []" "last seg = CalledSetup ob (Some e)" by simp_all
    with seg(3) p show "post = [] \<and> s = ErrorState (TransientError e) (Some um)" by blast
  qed
qed


text \<open>
  Two runs on a single group. In the first the second object's Install fails: its
  Setup succeeded, and its Cleanup is called after the failed Install. In the
  second the second object's Setup fails: the run ends there, with that error, and
  the third object is not touched.
\<close>

theorem installing_cleanup_after_successful_setup_witness:
  "InstallingState_Handle example_env
       \<lparr>PackageUID = ''p1'', Objects = [[''b1'', ''bad-install'']]\<rparr> example_uh
     = Inr (ErrorState (TransientError (MergedErrors [Error ''install failed'']))
              (Some \<lparr>PackageUID = ''p1'', Objects = [[''b1'', ''bad-install'']]\<rparr>),
            example_uh\<lparr>lastInstalledPackageUID := ''p1'', world := 11,
              trace := [CalledCheckSupportedHardware None,
                 CalledSha256sum ''b1'' None, CalledSetup ''b1'' None, CalledProceed ''b1'' True None,
                 CalledInstall ''b1'' None, CalledCleanup ''b1'' None,
                 CalledSha256sum ''bad-install'' None, CalledSetup ''bad-install'' None,
                 CalledProceed ''bad-install'' True None,
                 CalledInstall ''bad-install'' (Some (Error ''install failed'')),
                 CalledCleanup ''bad-install'' None]\<rparr>)
   \<and> (\<exists>r. CalledCleanup ''bad-install'' r
          \<in> set [CalledProceed ''bad-install'' True None,
                 CalledInstall ''bad-install'' (Some (Error ''install failed'')),
                 CalledCleanup ''bad-install'' None])
   \<and> InstallingState_Handle example_env
       \<lparr>PackageUID = ''p1'', Objects = [[''b1'', ''bad-setup'', ''b3'']]\<rparr> example_uh
     = Inr (ErrorState (TransientError (Error ''setup failed''))
              (Some \<lparr>PackageUID = ''p1'', Objects = [[''b1'', ''bad-setup'', ''b3'']]\<rparr>),
            example_uh\<lparr>lastInstalledPackageUID := ''p1'', world := 8,
              trace := [CalledCheckSupportedHardware None,
                 CalledSha256sum ''b1'' None, CalledSetup ''b1'' None, CalledProceed ''b1'' True None,
                 CalledInstall ''b1'' None, CalledCleanup ''b1'' None,
                 CalledSha256sum ''bad-setup'' None,
                 CalledSetup ''bad-setup'' (Some (Error ''setup failed''))]\<rparr>)"
proof -
  let ?um = "\<lparr>PackageUID = ''p1'', Objects = [[''b1'', ''bad-install'']]\<rparr>"
  let ?pre = "[CalledCheckSupportedHardware None,
                 CalledSha256sum ''b1'' None, CalledSetup ''b1'' None, CalledProceed ''b1'' True None,
                 CalledInstall ''b1'' None, CalledCleanup ''b1'' None,
                 CalledSha256sum ''bad-install'' None]"
  let ?post = "[CalledProceed ''bad-install'' True None,
                 CalledInstall ''bad-install'' (Some (Error ''install failed'')),
                 CalledCleanup ''bad-install'' None]"
  let ?uh' = "example_uh\<lparr>lastInstalledPackageUID := ''p1'', world := 11,
              trace := ?pre @ CalledSetup ''bad-install'' None # ?post\<rparr>"
  have run: "InstallingState_Handle example_env ?um example_uh
     = Inr (ErrorState (TransientError (MergedErrors [Error ''install failed''])) (Some ?um), ?uh')"
    by (simp add: InstallingState_Handle_def GetIndexOfObjectToBeInstalled_def install_object_def
          call_def example_env_def example_uh_def example_settings_def NewErrorState_def Let_def
          append_error_def)
  have tr: "trace ?uh' = trace example_uh @ ?pre @ CalledSetup ''bad-install'' None # ?post"
    by (simp add: example_uh_def)
  from installing_cleanup_after_successful_setup
         [OF run, where pre = ?pre and ob = "''bad-install''" and post = ?post] tr
  have c1: "\<exists>r. CalledCleanup ''bad-install'' r \<in> set ?post" by blast
  let ?um2 = "\<lparr>PackageUID = ''p1'', Objects = [[''b1'', ''bad-setup'', ''b3'']]\<rparr>"
  let ?pre2 = "[CalledCheckSupportedHardware None,
                 CalledSha256sum ''b1'' None, CalledSetup ''b1'' None, CalledProceed ''b1'' True None,
                 CalledInstall ''b1'' None, CalledCleanup ''b1'' None,
                 CalledSha256sum ''bad-setup'' None]"
  obtain s2 uh2 where run2: "InstallingState_Handle example_env ?um2 example_uh = Inr (s2, uh2)"
    and tr2: "trace uh2 = trace example_uh @ ?pre2 @ CalledSetup ''bad-setup'' (Some (Error ''setup failed'')) # []"
    and w2: "uh2 = example_uh\<lparr>lastInstalledPackageUID := ''p1'', world := 8,
              trace := ?pre2 @ [CalledSetup ''bad-setup'' (Some (Error ''setup failed''))]\<rparr>"
    by (simp add: InstallingState_Handle_def GetIndexOfObjectToBeInstalled_def install_object_def
          call_def example_env_def example_uh_def example_settings_def NewErrorState_def Let_def
          append_error_def)
  from installing_cleanup_after_successful_setup
         [OF run2, where pre = ?pre2 and ob = "''bad-setup''" and post = "[]"
            and e = "Error ''setup failed''"] tr2
  have c2: "s2 = ErrorState (TransientError (Error ''setup failed'')) (Some ?um2)" by blast
  from run c1 run2 c2 w2 show ?thesis by simp
qed

text \<open>
  Claim C1 as stated also covers a Setup that fails. There the handler returns at
  once: for a group whose only object fails in Setup, the run ends with the Setup
  event, and no Cleanup is called.
\<close>

theorem installing_failed_setup_no_cleanup:
  "InstallingState_Handle example_env \<lparr>PackageUID = ''p1'', Objects = [[''bad-setup'']]\<rparr> example_uh
     = Inr (ErrorState (TransientError (Error ''setup failed''))
              (Some \<lparr>PackageUID = ''p1'', Objects = [[''bad-setup'']]\<rparr>),
            example_uh\<lparr>lastInstalledPackageUID := ''p1'', world := 3,
              trace := [CalledCheckSupportedHardware None, CalledSha256sum ''bad-setup'' None,
                        CalledSetup ''bad-setup'' (Some (Error ''setup failed''))]\<rparr>)"
  by (simp add: InstallingState_Handle_def GetIndexOfObjectToBeInstalled_def install_object_def
        call_def example_env_def example_uh_def example_settings_def NewErrorState_def Let_def)

text \<open>
  Claim C2. With two object groups, \<^verbatim>\<open>SetActive\<close> is called inside the loop over
  the objects, after each object that installed. On a chosen group of two objects
  whose second Install fails, the active slot has been set to the new index after
  the first object, before the second object is touched, and the run ends in an
  error.
\<close>

theorem installing_sets_active_between_objects:
  "InstallingState_Handle example_env
       \<lparr>PackageUID = ''p1'', Objects = [[''a''], [''b1'', ''bad-install'']]\<rparr> example_uh
     = Inr (ErrorState (TransientError (MergedErrors [Error ''install failed'']))
              (Some \<lparr>PackageUID = ''p1'', Objects = [[''a''], [''b1'', ''bad-install'']]\<rparr>),
            example_uh\<lparr>lastInstalledPackageUID := ''p1'', world := 13,
              trace := [CalledCheckSupportedHardware None, CalledActive 0 None,
                 CalledSha256sum ''b1'' None, CalledSetup ''b1'' None, CalledProceed ''b1'' True None,
                 CalledInstall ''b1'' None, CalledCleanup ''b1'' None, CalledSetActive 1 None,
                 CalledSha256sum ''bad-install'' None, CalledSetup ''bad-install'' None,
                 CalledProceed ''bad-install'' True None,
                 CalledInstall ''bad-install'' (Some (Error ''install failed'')),
                 CalledCleanup ''bad-install'' None]\<rparr>)"
  by (simp add: InstallingState_Handle_def GetIndexOfObjectToBeInstalled_def install_object_def
        call_def example_env_def example_uh_def example_settings_def NewErrorState_def Let_def
        append_error_def)

text \<open>
  Claim C3, as amended. When the Installing handler is given a descriptor whose
  number of object groups is neither 1 nor 2 (with a package UID that is not the
  last one and a hardware check that passes), it returns the Error state with a
  transient cause, the object-count error, and the Error state's handler then
  returns Idle.
\<close>

theorem installing_bad_group_count_is_transient:
  assumes "length (Objects um) \<noteq> 1" and "length (Objects um) \<noteq> 2"
    and "PackageUID um \<noteq> lastInstalledPackageUID uh"
    and "fst (CheckSupportedHardware env um (world uh)) = None"
  shows "InstallingState_Handle env (um :: 'o UpdateMetadata) uh
           = Inr (ErrorState (TransientError (ObjectCountError (length (Objects um)))) (Some um),
                  uh\<lparr>lastInstalledPackageUID := PackageUID um,
                     world := snd (CheckSupportedHardware env um (world uh)),
                     trace := trace uh @ [CalledCheckSupportedHardware None]\<rparr>)
       \<and> ErrorState_Handle (TransientError (ObjectCountError (length (Objects um))))
           = (IdleState :: 'o UpdateMetadata State)"
proof -
  from assms(1,2) have n: "length (Objects um) < 1 \<or> length (Objects um) > 2" by arith
  obtain e w where hw: "CheckSupportedHardware env um (world uh) = (e, w)"
    by (cases "CheckSupportedHardware env um (world uh)")
  with assms(4) have e: "e = None" by simp
  show ?thesis
    using assms(3) n hw e
    by (simp add: InstallingState_Handle_def GetIndexOfObjectToBeInstalled_def call_def
          NewErrorState_def ErrorState_Handle_def Let_def)
qed

theorem installing_bad_group_count_is_transient_witness:
  "length (Objects \<lparr>PackageUID = ''p1'', Objects = ([] :: string list list)\<rparr>) \<noteq> 1
   \<and> length (Objects \<lparr>PackageUID = ''p1'', Objects = ([] :: string list list)\<rparr>) \<noteq> 2
   \<and> InstallingState_Handle example_env \<lparr>PackageUID = ''p1'', Objects = []\<rparr> example_uh
       = Inr (ErrorState (TransientError (ObjectCountError 0)) (Some \<lparr>PackageUID = ''p1'', Objects = []\<rparr>),
              example_uh\<lparr>lastInstalledPackageUID := ''p1'', world := 1,
                 trace := [CalledCheckSupportedHardware None]\<rparr>)"
proof -
  let ?um = "\<lparr>PackageUID = ''p1'', Objects = ([] :: string list list)\<rparr>"
  have h1: "length (Objects ?um) \<noteq> 1" and h2: "length (Objects ?um) \<noteq> 2" by simp_all
  have h3: "PackageUID ?um \<noteq> lastInstalledPackageUID example_uh" by (simp add: example_uh_def)
  have h4: "fst (CheckSupportedHardware example_env ?um (world example_uh)) = None"
    by (simp add: example_env_def)
  have w: "snd (CheckSupportedHardware example_env ?um (world example_uh)) = 1"
    by (simp add: example_env_def example_uh_def)
  have t: "trace example_uh = []" by (simp add: example_uh_def)
  from installing_bad_group_count_is_transient [OF h1 h2 h3 h4] h1 h2
  show ?thesis by (simp add: w t)
qed

text \<open>
  Claim C3 as stated asks for a fatal error and Exit(1). On a descriptor with
  three groups the handler returns a transient cause, and the Error handler
  applied to that cause yields Idle, not Exit(1).
\<close>

theorem installing_three_groups_returns_to_idle:
  "InstallingState_Handle example_env \<lparr>PackageUID = ''p1'', Objects = [[''a''], [''b''], [''c'']]\<rparr> example_uh
     = Inr (ErrorState (TransientError (ObjectCountError 3))
              (Some \<lparr>PackageUID = ''p1'', Objects = [[''a''], [''b''], [''c'']]\<rparr>),
            example_uh\<lparr>lastInstalledPackageUID := ''p1'', world := 1,
               trace := [CalledCheckSupportedHardware None]\<rparr>)
   \<and> \<not> IsFatal (TransientError (ObjectCountError 3))
   \<and> ErrorState_Handle (TransientError (ObjectCountError 3)) = (IdleState :: string UpdateMetadata State)
   \<and> ErrorState_Handle (TransientError (ObjectCountError 3)) \<noteq> (ExitState 1 :: string UpdateMetadata State)"
  by (simp add: InstallingState_Handle_def GetIndexOfObjectToBeInstalled_def call_def
        example_env_def example_uh_def example_settings_def NewErrorState_def ErrorState_Handle_def
        Let_def)

text \<open>
  Claim C4. When the Installing handler runs on a descriptor whose package UID
  equals the UID of the last installation started, it returns WaitingForReboot
  with the same descriptor and leaves the whole \<^verbatim>\<open>UpdateHub\<close> structure as it
  was: the world and the trace are unchanged, so neither the hardware check nor the
  sha256 verification nor any Setup, Install or Cleanup was called.
\<close>

theorem installing_same_uid_skips:
  assumes "PackageUID um = lastInstalledPackageUID uh"
  shows "InstallingState_Handle env um uh = Inr (WaitingForRebootState um, uh)"
  using assms by (simp add: InstallingState_Handle_def)

theorem installing_same_uid_skips_witness:
  "PackageUID \<lparr>PackageUID = ''p0'', Objects = [[''a'']]\<rparr> = lastInstalledPackageUID example_uh
   \<and> InstallingState_Handle example_env \<lparr>PackageUID = ''p0'', Objects = [[''a'']]\<rparr> example_uh
       = Inr (WaitingForRebootState \<lparr>PackageUID = ''p0'', Objects = [[''a'']]\<rparr>, example_uh)"
proof -
  have h: "PackageUID \<lparr>PackageUID = ''p0'', Objects = [[''a'']]\<rparr> = lastInstalledPackageUID example_uh"
    by (simp add: example_uh_def)
  from installing_same_uid_skips [OF h] h show ?thesis by simp
qed

section \<open>Properties of the UpdateCheck state\<close>

lemma next_poll_loop_Some_cases:
  assumes "next_poll_loop interval now nextPoll = Some r"
  shows "\<not> (interval \<le> 0 \<and> nextPoll < now)"
proof (rule next_poll_loop.raw_induct [where P = "\<lambda>i n p y. \<not> (i \<le> 0 \<and> p < n)", OF _ assms])
  fix f :: "int \<Rightarrow> int \<Rightarrow> int \<Rightarrow> int option" and i n p y
  assume IH: "\<And>i n p y. f i n p = Some y \<Longrightarrow> \<not> (i \<le> 0 \<and> p < n)"
    and body: "(if p < n then f i n (p + i) else Some p) = Some y"
  show "\<not> (i \<le> 0 \<and> p < n)"
  proof (cases "p < n")
    case True
    with body have "f i n (p + i) = Some y" by simp
    from IH [OF this] True show ?thesis by auto
  next
    case False
    then show ?thesis by simp
  qed
qed

lemma next_poll_loop_diverges:
  "interval \<le> 0 \<Longrightarrow> nextPoll < now \<Longrightarrow> next_poll_loop interval now nextPoll = None"
  using next_poll_loop_Some_cases [of interval now nextPoll] by (cases "next_poll_loop interval now nextPoll") auto

lemma next_poll_loop_terminates:
  "0 < interval \<Longrightarrow> \<exists>r. next_poll_loop interval now nextPoll = Some r \<and> now \<le> r"
proof (induction "nat (now - nextPoll)" arbitrary: nextPoll rule: less_induct)
  case less
  show ?case
  proof (cases "nextPoll < now")
    case True
    with less.prems have "nat (now - (nextPoll + interval)) < nat (now - nextPoll)" by simp
    from less.hyps [OF this less.prems] obtain r
      where "next_poll_loop interval now (nextPoll + interval) = Some r" "now \<le> r" by blast
    with True show ?thesis by (subst next_poll_loop.simps) simp
  next
    case False
    then show ?thesis by (subst next_poll_loop.simps) simp
  qed
qed

lemma UpdateCheckState_Handle_terminates:
  assumes "0 < PollingInterval (settings uh)"
  shows "\<exists>r. UpdateCheckState_Handle env uh = Some r"
proof -
  have nn: "next_poll_loop (PollingInterval (settings uh)) now nextPoll \<noteq> None" for now nextPoll
    using next_poll_loop_terminates [OF assms, of now nextPoll] by auto
  show ?thesis
    by (auto simp: UpdateCheckState_Handle_def Let_def nn
             split: prod.splits option.splits dest!: call_settings)
qed

lemma UpdateCheckState_Handle_diverges:
  assumes "PollingInterval (settings uh) \<le> 0"
    and "CheckUpdate env (PollingRetries (settings uh)) (world uh) = ((None, extraPoll), w1)"
    and "0 < extraPoll"
    and "Now env w1 = (t, w2)"
    and "Now env w2 = (now, w3)"
    and "FirstPoll (settings uh) < now"
  shows "UpdateCheckState_Handle env uh = None"
proof -
  have "Unix (FirstPoll (settings uh)) * 1000000000 \<le> FirstPoll (settings uh)"
    unfolding Unix_def by (simp add: mult.commute [of _ 1000000000])
  with assms(6) have "time_Unix (Unix (FirstPoll (settings uh))) 0 < now"
    by (simp add: time_Unix_def)
  from next_poll_loop_diverges [OF assms(1) this]
  show ?thesis
    using assms(2-5)
    by (simp add: UpdateCheckState_Handle_def call_def Let_def)
qed

text \<open>
  Claim C5, as amended. When the UpdateCheck handler returns Idle, the retry
  counter is its value at handler entry plus 1 if the probe reported a failure
  (an extra poll of -1); otherwise the counter was first reset to zero and is 1.
\<close>

theorem update_check_idle_retries:
  assumes "UpdateCheckState_Handle env uh = Some (IdleState, uh')"
  shows "PollingRetries (settings uh')
           = (if snd (fst (CheckUpdate env (PollingRetries (settings uh)) (world uh))) = - 1
              then PollingRetries (settings uh) else 0) + 1"
  using assms
  by (auto simp: UpdateCheckState_Handle_def call_def NewPollState_def Let_def
           split: prod.splits option.splits if_splits)

theorem update_check_idle_retries_witness:
  "UpdateCheckState_Handle (example_probe_env None (- 1) 1) (example_uh_retries 5)
      = Some (IdleState,
              example_uh\<lparr>settings := example_settings\<lparr>LastPoll := 1, PollingRetries := 6\<rparr>,
                           world := 1, trace := [CalledCheckUpdate 5, CalledNow 1]\<rparr>)
   \<and> PollingRetries (settings (example_uh\<lparr>settings := example_settings\<lparr>LastPoll := 1, PollingRetries := 6\<rparr>,
                           world := 1, trace := [CalledCheckUpdate 5, CalledNow 1]\<rparr>)) = 5 + 1"
proof -
  let ?uh' = "example_uh\<lparr>settings := example_settings\<lparr>LastPoll := 1, PollingRetries := 6\<rparr>,
                           world := 1, trace := [CalledCheckUpdate 5, CalledNow 1]\<rparr>"
  have run: "UpdateCheckState_Handle (example_probe_env None (- 1) 1) (example_uh_retries 5)
      = Some (IdleState, ?uh')"
    by (simp add: UpdateCheckState_Handle_def call_def Let_def example_probe_env_def
          example_uh_retries_def example_env_def example_uh_def example_settings_def)
  have p: "snd (fst (CheckUpdate (example_probe_env None (- 1) 1)
                 (PollingRetries (settings (example_uh_retries 5))) (world (example_uh_retries 5)))) = - 1"
    by (simp add: example_probe_env_def)
  have r: "PollingRetries (settings (example_uh_retries 5)) = 5"
    by (simp add: example_uh_retries_def)
  from update_check_idle_retries [OF run] run show ?thesis
    unfolding p r by simp
qed

text \<open>
  Claim C5 as stated fails after a probe that succeeded without an update: entered
  with 5 retries, the handler returns Idle with 1 retry, not 6.
\<close>

theorem update_check_idle_after_success_retries_one:
  "UpdateCheckState_Handle (example_probe_env None 0 1) (example_uh_retries 5)
      = Some (IdleState,
              example_uh\<lparr>settings := example_settings\<lparr>LastPoll := 1, PollingRetries := 1\<rparr>,
                           world := 1, trace := [CalledCheckUpdate 5, CalledNow 1]\<rparr>)
   \<and> PollingRetries (settings (example_uh_retries 5)) = 5
   \<and> (1 :: 64 word) \<noteq> 5 + 1"
  by (simp add: UpdateCheckState_Handle_def call_def Let_def example_probe_env_def
          example_uh_retries_def example_env_def example_uh_def example_settings_def)

text \<open>
  Claim C6, as amended. When the UpdateCheck handler returns Downloading, the
  extra polling interval is zero, the last poll is the time the clock shows after
  the probe has returned (where the handler reads it), and the retry counter is
  zero unless the probe's extra poll was -1, in which case it is unchanged.
\<close>

theorem update_check_downloading_settings:
  assumes "UpdateCheckState_Handle env uh = Some (DownloadingState um, uh')"
  shows "ExtraPollingInterval (settings uh') = 0
       \<and> LastPoll (settings uh')
           = fst (Now env (snd (CheckUpdate env (PollingRetries (settings uh)) (world uh))))
       \<and> PollingRetries (settings uh')
           = (if snd (fst (CheckUpdate env (PollingRetries (settings uh)) (world uh))) = - 1
              then PollingRetries (settings uh) else 0)"
  using assms
  by (auto simp: UpdateCheckState_Handle_def call_def NewPollState_def Let_def
           split: prod.splits option.splits if_splits)

theorem update_check_downloading_settings_witness:
  "UpdateCheckState_Handle (example_probe_env (Some \<lparr>PackageUID = ''p1'', Objects = [[''a'']]\<rparr>) 0 7)
       (example_uh_retries 3)
      = Some (DownloadingState \<lparr>PackageUID = ''p1'', Objects = [[''a'']]\<rparr>,
              example_uh\<lparr>settings := example_settings\<lparr>LastPoll := 7, PollingRetries := 0\<rparr>,
                           world := 7, trace := [CalledCheckUpdate 3, CalledNow 7]\<rparr>)
   \<and> ExtraPollingInterval (settings (example_uh\<lparr>settings := example_settings\<lparr>LastPoll := 7, PollingRetries := 0\<rparr>,
                           world := 7, trace := [CalledCheckUpdate 3, CalledNow 7]\<rparr>)) = 0
   \<and> LastPoll (settings (example_uh\<lparr>settings := example_settings\<lparr>LastPoll := 7, PollingRetries := 0\<rparr>,
                           world := 7, trace := [CalledCheckUpdate 3, CalledNow 7]\<rparr>)) = 7
   \<and> PollingRetries (settings (example_uh\<lparr>settings := example_settings\<lparr>LastPoll := 7, PollingRetries := 0\<rparr>,
                           world := 7, trace := [CalledCheckUpdate 3, CalledNow 7]\<rparr>)) = 0"
proof -
  let ?um = "\<lparr>PackageUID = ''p1'', Objects = [[''a'']]\<rparr>"
  let ?uh' = "example_uh\<lparr>settings := example_settings\<lparr>LastPoll := 7, PollingRetries := 0\<rparr>,
                           world := 7, trace := [CalledCheckUpdate 3, CalledNow 7]\<rparr>"
  have run: "UpdateCheckState_Handle (example_probe_env (Some ?um) 0 7) (example_uh_retries 3)
      = Some (DownloadingState ?um, ?uh')"
    by (simp add: UpdateCheckState_Handle_def call_def Let_def example_probe_env_def
          example_uh_retries_def example_env_def example_uh_def example_settings_def)
  have p: "CheckUpdate (example_probe_env (Some ?um) 0 7)
             (PollingRetries (settings (example_uh_retries 3))) (world (example_uh_retries 3))
           = ((Some ?um, 0), 7)"
    by (simp add: example_probe_env_def example_uh_retries_def example_uh_def)
  have n: "Now (example_probe_env (Some ?um) 0 7) 7 = (7, 7)"
    by (simp add: example_probe_env_def example_env_def)
  from update_check_downloading_settings [OF run] run show ?thesis
    unfolding p by (simp add: n)
qed

text \<open>
  Claim C6 as stated fails for a probe that returns a descriptor together with an
  extra poll of -1 and takes 7 units of time: the clock shows 0 at handler entry,
  the handler returns Downloading with the retry counter still 3 and the last poll
  at 7.
\<close>

theorem update_check_downloading_after_failure_code:
  "fst (Now (example_probe_env (Some \<lparr>PackageUID = ''p1'', Objects = [[''a'']]\<rparr>) (- 1) 7)
          (world (example_uh_retries 3))) = 0
   \<and> UpdateCheckState_Handle (example_probe_env (Some \<lparr>PackageUID = ''p1'', Objects = [[''a'']]\<rparr>) (- 1) 7)
       (example_uh_retries 3)
      = Some (DownloadingState \<lparr>PackageUID = ''p1'', Objects = [[''a'']]\<rparr>,
              example_uh\<lparr>settings := example_settings\<lparr>LastPoll := 7, PollingRetries := 3\<rparr>,
                           world := 7, trace := [CalledCheckUpdate 3, CalledNow 7]\<rparr>)
   \<and> (3 :: 64 word) \<noteq> 0 \<and> (7 :: int) \<noteq> 0"
  by (simp add: UpdateCheckState_Handle_def call_def Let_def example_probe_env_def
          example_uh_retries_def example_env_def example_uh_def example_settings_def)

text \<open>
  Claim C10. With a positive polling interval the UpdateCheck handler returns for
  every environment and every \<^verbatim>\<open>UpdateHub\<close> structure. With a polling interval
  that is zero or negative, a probe without descriptor and with a positive extra
  poll, and a first poll before the current time, the handler does not return. The
  same holds of the scheduling loop itself: it ends, at a time not before now,
  when the interval is positive, and runs forever when the interval is not
  positive and the projected poll is before now.
\<close>

theorem update_check_terminates_iff_positive_interval:
  "(0 < PollingInterval (settings uh) \<longrightarrow> (\<exists>r. UpdateCheckState_Handle env uh = Some r))
   \<and> (PollingInterval (settings uh) \<le> 0
        \<and> CheckUpdate env (PollingRetries (settings uh)) (world uh) = ((None, extraPoll), w1)
        \<and> 0 < extraPoll \<and> Now env w1 = (t, w2) \<and> Now env w2 = (now, w3)
        \<and> FirstPoll (settings uh) < now
      \<longrightarrow> UpdateCheckState_Handle env uh = None)
   \<and> (0 < interval \<longrightarrow> (\<exists>r. next_poll_loop interval now' nextPoll = Some r \<and> now' \<le> r))
   \<and> (interval \<le> 0 \<and> nextPoll < now' \<longrightarrow> next_poll_loop interval now' nextPoll = None)"
  using UpdateCheckState_Handle_terminates [of uh env]
    UpdateCheckState_Handle_diverges [of uh env extraPoll w1 t w2 now w3]
    next_poll_loop_terminates [of interval now' nextPoll]
    next_poll_loop_diverges [of interval nextPoll now']
  by blast

theorem update_check_terminates_iff_positive_interval_witness:
  "(\<exists>r. UpdateCheckState_Handle (example_probe_env None 3 20) (example_uh_interval 10) = Some r)
   \<and> UpdateCheckState_Handle (example_probe_env None 3 20) (example_uh_interval 0) = None
   \<and> (\<exists>r. next_poll_loop 10 20 0 = Some r \<and> 20 \<le> r)
   \<and> next_poll_loop 0 20 0 = None"
proof -
  have a: "0 < PollingInterval (settings (example_uh_interval 10))"
    by (simp add: example_uh_interval_def)
  have b: "PollingInterval (settings (example_uh_interval 0)) \<le> 0
        \<and> CheckUpdate (example_probe_env None 3 20) (PollingRetries (settings (example_uh_interval 0)))
             (world (example_uh_interval 0)) = ((None, 3), 20)
        \<and> (0::int) < 3 \<and> Now (example_probe_env None 3 20) 20 = (20, 20)
        \<and> Now (example_probe_env None 3 20) 20 = (20, 20)
        \<and> FirstPoll (settings (example_uh_interval 0)) < 20"
    by (simp add: example_uh_interval_def example_probe_env_def example_env_def example_uh_def
          example_settings_def)
  have c: "(0::int) < 10" and d: "(0::int) \<le> 0 \<and> (0::int) < 20" by simp_all
  from update_check_terminates_iff_positive_interval
         [of "example_uh_interval 10" "example_probe_env None 3 20" 3 20 20 20 20 20 10 20 0]
       a c
  have t1: "\<exists>r. UpdateCheckState_Handle (example_probe_env None 3 20) (example_uh_interval 10) = Some r"
    and t3: "\<exists>r. next_poll_loop 10 20 0 = Some r \<and> 20 \<le> r" by blast+
  from update_check_terminates_iff_positive_interval
         [of "example_uh_interval 0" "example_probe_env None 3 20" 3 20 20 20 20 20 0 20 0]
       b d
  have t2: "UpdateCheckState_Handle (example_probe_env None 3 20) (example_uh_interval 0) = None"
    and t4: "next_poll_loop 0 20 0 = None" by blast+
  from t1 t2 t3 t4 show ?thesis by blast
qed

section \<open>Properties of the Poll state\<close>

lemma go_quot_pos: "0 < b \<Longrightarrow> 0 \<le> a \<Longrightarrow> go_quot a b = Inr (a div b)"
  by (auto simp: go_quot_def sgn_if)

lemma go_rem_pos: "0 < b \<Longrightarrow> 0 \<le> a \<Longrightarrow> go_rem a b = Inr (a mod b)"
  by (auto simp: go_rem_def sgn_if)

lemma go_quot_zero_iff:
  "0 < b \<Longrightarrow> go_quot a b = Inr 0 \<longleftrightarrow> - b < a \<and> a < b"
  by (auto simp: go_quot_def sgn_if zdiv_eq_0_iff)

lemma go_quot_nonzero:
  assumes "0 < b" and "b \<le> a \<or> a \<le> - b"
  shows "\<exists>n. go_quot a b = Inr n \<and> n \<noteq> 0"
proof -
  from assms(1) obtain n where n: "go_quot a b = Inr n" by (auto simp: go_quot_def)
  from assms have "\<not> (- b < a \<and> a < b)" by auto
  with go_quot_zero_iff [OF assms(1), of a] n have "n \<noteq> 0" by auto
  with n show ?thesis by blast
qed

lemma wrap_int64_id: "- (2 ^ 63) \<le> x \<Longrightarrow> x < 2 ^ 63 \<Longrightarrow> wrap_int64 x = x"
  by (simp add: wrap_int64_def)

lemma PollState_loop_no_panic:
  assumes "0 < timeStep" and "go_quot interval timeStep = Inr n" and "n \<noteq> 0"
  shows "PollState_loop timeStep interval ticks evs \<noteq> PollPanicked p"
  using assms
proof (induction evs arbitrary: ticks)
  case Nil
  then show ?case by simp
next
  case (Cons e evs)
  then show ?case
    by (cases e) (auto simp: Let_def go_rem_def)
qed

lemma PollState_loop_first_tick_panics:
  assumes "0 < timeStep" and "go_quot interval timeStep = Inr 0"
    and "0 \<le> ticks" and "ticks < 2 ^ 63 - 1"
  shows "PollState_loop timeStep interval ticks (TickerFired # evs) = PollPanicked DivideByZero"
proof -
  from assms(3,4) have "wrap_int64 (ticks + 1) = ticks + 1"
    by (intro wrap_int64_id) simp_all
  with assms show ?thesis by (simp add: Let_def go_rem_def)
qed

lemma next_multiple_step:
  fixes t n :: int
  assumes "0 < n" "0 \<le> t"
  shows "(t + 1) mod n = 0 \<Longrightarrow> (t div n + 1) * n = t + 1"
    and "(t + 1) mod n \<noteq> 0 \<Longrightarrow> (t + 1) div n = t div n"
proof -
  have t: "t = (t div n) * n + t mod n" by simp
  have r: "0 \<le> t mod n" "t mod n < n" using assms by simp_all
  { assume z: "(t + 1) mod n = 0"
    have "t mod n = n - 1"
    proof (rule ccontr)
      assume "t mod n \<noteq> n - 1"
      with r have "t mod n + 1 < n" by simp
      then have "(t + 1) mod n = t mod n + 1"
        using r by (metis add.commute mod_add_left_eq mod_pos_pos_trivial add_nonneg_nonneg zero_le_one)
      with z r show False by simp
    qed
    with t have "t + 1 = (t div n) * n + n" by simp
    then show "(t div n + 1) * n = t + 1" by (simp add: algebra_simps) }
  { assume nz: "(t + 1) mod n \<noteq> 0"
    have "t mod n \<noteq> n - 1"
    proof
      assume "t mod n = n - 1"
      with t have "t + 1 = (t div n + 1) * n" by (simp add: algebra_simps)
      then have "(t + 1) mod n = 0" by simp
      with nz show False by simp
    qed
    with r have lt: "t mod n + 1 < n" by simp
    have "t + 1 = (t div n) * n + (t mod n + 1)" by simp
    then have "(t + 1) div n = ((t div n) * n + (t mod n + 1)) div n" by simp
    also have "\<dots> = t div n + (t mod n + 1) div n"
      using assms(1) by (subst div_mult_self3) simp_all
    also have "(t mod n + 1) div n = 0"
      using lt r by (intro div_pos_pos_trivial) simp_all
    finally show "(t + 1) div n = t div n" by simp }
qed

lemma below_next_multiple:
  fixes t n :: int
  assumes "0 < n"
  shows "t < (t div n + 1) * n"
proof -
  have "t = (t div n) * n + t mod n" by simp
  moreover have "t mod n < n" using assms by simp
  ultimately have "t < (t div n) * n + n" by linarith
  then show ?thesis by (simp add: algebra_simps)
qed

lemma PollState_loop_fires_at_next_multiple:
  assumes "0 < timeStep" and "timeStep \<le> interval" and "0 \<le> ticks"
    and "(ticks div (interval div timeStep) + 1) * (interval div timeStep) < 2 ^ 63"
  shows "PollState_loop timeStep interval ticks (replicate j TickerFired)
           = (let n = interval div timeStep; next = (ticks div n + 1) * n
              in if next - ticks \<le> int j then PollUpdateCheck next else PollWaiting (ticks + int j))"
  using assms(3,4)
proof (induction j arbitrary: ticks)
  case 0
  let ?n = "interval div timeStep"
  from assms(1,2) have n: "0 < ?n" by (simp add: pos_imp_zdiv_pos_iff)
  from below_next_multiple [OF n, of ticks] assms(1) show ?case by (simp add: Let_def)
next
  case (Suc j)
  let ?n = "interval div timeStep"
  from assms(1,2) have n: "0 < ?n" by (simp add: pos_imp_zdiv_pos_iff)
  from assms(1,2) have q: "go_quot interval timeStep = Inr ?n" by (simp add: go_quot_pos)
  from below_next_multiple [OF n, of ticks] Suc.prems
  have w: "wrap_int64 (ticks + 1) = ticks + 1" by (intro wrap_int64_id) simp_all
  from Suc.prems n have r: "go_rem (ticks + 1) ?n = Inr ((ticks + 1) mod ?n)" by (simp add: go_rem_pos)
  show ?case
  proof (cases "(ticks + 1) mod ?n = 0")
    case True
    from next_multiple_step(1) [OF n Suc.prems(1) True] have "(ticks div ?n + 1) * ?n = ticks + 1" .
    with assms(1) Suc.prems q r w True show ?thesis by (simp add: Let_def)
  next
    case False
    from next_multiple_step(2) [OF n Suc.prems(1) False] have d: "(ticks + 1) div ?n = ticks div ?n" .
    have lt: "ticks + 1 < (ticks div ?n + 1) * ?n"
      using below_next_multiple [OF n, of "ticks + 1"] d by simp
    have p1: "0 \<le> ticks + 1" using Suc.prems by simp
    have p2: "((ticks + 1) div ?n + 1) * ?n < 2 ^ 63" using Suc.prems(2) d by simp
    from Suc.IH [OF p1 p2] d
    have "PollState_loop timeStep interval (ticks + 1) (replicate j TickerFired)
           = (if (ticks div ?n + 1) * ?n - (ticks + 1) \<le> int j
              then PollUpdateCheck ((ticks div ?n + 1) * ?n) else PollWaiting (ticks + 1 + int j))"
      by (simp add: Let_def)
    with assms(1) Suc.prems q r w False lt show ?thesis
      by (auto simp: Let_def)
  qed
qed

lemma PollState_loop_skips_cancel:
  "0 < timeStep \<Longrightarrow>
   PollState_loop timeStep interval ticks (replicate k CancelReceived @ evs)
     = PollState_loop timeStep interval ticks evs"
  by (induction k) auto

lemma PollState_loop_wraps_at_max:
  "PollState_loop 1000 999 (2 ^ 63 - 1) [TickerFired] = PollWaiting (- (2 ^ 63))"
  by (simp add: Let_def go_quot_def go_rem_def wrap_int64_def)

text \<open>
  Claim C9, as amended. For a positive tick length, the tick arithmetic panics
  exactly when the quotient of the polling interval by the tick length truncates to
  zero, that is when the interval lies strictly between minus the tick length and
  the tick length. When the interval is at least the tick length, or at most minus
  the tick length, the loop never panics, whatever the events and the tick count.
  When the quotient truncates to zero, the first tick divides by zero (for a tick
  count from 0 to below \<open>2 ^ 63 - 1\<close>, so that the incremented count is
  positive). When the interval is at least the tick length, on ticks alone and
  started at a tick count that is not negative, the loop sets the next state to
  UpdateCheck exactly when the count reaches the next positive multiple of the
  quotient, and is still waiting before that (for a multiple below \<open>2 ^ 63\<close>).
\<close>

theorem poll_tick_arithmetic:
  assumes "0 < timeStep"
  shows "(timeStep \<le> interval \<or> interval \<le> - timeStep \<longrightarrow>
            PollState_loop timeStep interval ticks evs \<noteq> PollPanicked p)
       \<and> (- timeStep < interval \<and> interval < timeStep \<and> 0 \<le> ticks \<and> ticks < 2 ^ 63 - 1 \<longrightarrow>
            PollState_loop timeStep interval ticks (replicate k CancelReceived @ TickerFired # evs)
              = PollPanicked DivideByZero)
       \<and> (go_quot interval timeStep = Inr 0 \<and> 0 \<le> ticks \<and> ticks < 2 ^ 63 - 1 \<longrightarrow>
            PollState_loop timeStep interval ticks (replicate k CancelReceived @ TickerFired # evs)
              = PollPanicked DivideByZero)
       \<and> (timeStep \<le> interval \<and> 0 \<le> ticks
            \<and> (ticks div (interval div timeStep) + 1) * (interval div timeStep) < 2 ^ 63 \<longrightarrow>
            PollState_loop timeStep interval ticks (replicate j TickerFired)
              = (let n = interval div timeStep; next = (ticks div n + 1) * n
                 in if next - ticks \<le> int j then PollUpdateCheck next
                    else PollWaiting (ticks + int j)))"
proof (intro conjI impI)
  assume "timeStep \<le> interval \<or> interval \<le> - timeStep"
  from go_quot_nonzero [OF assms this] obtain n
    where "go_quot interval timeStep = Inr n" "n \<noteq> 0" by blast
  from PollState_loop_no_panic [OF assms this]
  show "PollState_loop timeStep interval ticks evs \<noteq> PollPanicked p" .
next
  assume h: "- timeStep < interval \<and> interval < timeStep \<and> 0 \<le> ticks \<and> ticks < 2 ^ 63 - 1"
  with assms have "go_quot interval timeStep = Inr 0" by (simp add: go_quot_zero_iff)
  with assms h show "PollState_loop timeStep interval ticks (replicate k CancelReceived @ TickerFired # evs)
              = PollPanicked DivideByZero"
    by (simp only: PollState_loop_skips_cancel PollState_loop_first_tick_panics)
next
  assume "go_quot interval timeStep = Inr 0 \<and> 0 \<le> ticks \<and> ticks < 2 ^ 63 - 1"
  with assms show "PollState_loop timeStep interval ticks (replicate k CancelReceived @ TickerFired # evs)
              = PollPanicked DivideByZero"
    by (simp only: PollState_loop_skips_cancel PollState_loop_first_tick_panics)
next
  assume "timeStep \<le> interval \<and> 0 \<le> ticks
            \<and> (ticks div (interval div timeStep) + 1) * (interval div timeStep) < 2 ^ 63"
  with assms show "PollState_loop timeStep interval ticks (replicate j TickerFired)
              = (let n = interval div timeStep; next = (ticks div n + 1) * n
                 in if next - ticks \<le> int j then PollUpdateCheck next
                    else PollWaiting (ticks + int j))"
    by (simp add: PollState_loop_fires_at_next_multiple)
qed

theorem poll_tick_arithmetic_witness:
  "PollState_loop 1000 3500 0 [TickerFired, CancelReceived, TickerFired] \<noteq> PollPanicked DivideByZero
   \<and> PollState_loop 1000 (- 3500) 0 [TickerFired, TickerFired] \<noteq> PollPanicked DivideByZero
   \<and> PollState_loop 1000 3500 4 (replicate 2 TickerFired) = PollUpdateCheck 6
   \<and> PollState_loop 1000 3500 0 (replicate 2 TickerFired) = PollWaiting 2
   \<and> PollState_loop 1000 999 0 (replicate 1 CancelReceived @ TickerFired # []) = PollPanicked DivideByZero
   \<and> PollState_loop 1000 (- 999) 0 (replicate 0 CancelReceived @ TickerFired # []) = PollPanicked DivideByZero
   \<and> go_quot (- 999) 1000 = Inr 0"
proof -
  have ts: "(0::int) < 1000" by simp
  have a: "(1000::int) \<le> 3500 \<or> (3500::int) \<le> - 1000" by simp
  have a': "(1000::int) \<le> - 3500 \<or> (- 3500::int) \<le> - 1000" by simp
  have b: "(1000::int) \<le> 3500 \<and> (0::int) \<le> 4 \<and> (4 div (3500 div 1000) + 1) * (3500 div 1000) < (2::int) ^ 63"
    by simp
  have b0: "(1000::int) \<le> 3500 \<and> (0::int) \<le> 0 \<and> (0 div (3500 div 1000) + 1) * (3500 div 1000) < (2::int) ^ 63"
    by simp
  have c: "- (1000::int) < 999 \<and> (999::int) < 1000 \<and> (0::int) \<le> 0 \<and> (0::int) < 2 ^ 63 - 1" by simp
  have d: "go_quot (- 999) 1000 = Inr 0" by (simp add: go_quot_def)
  have d': "go_quot (- 999) 1000 = Inr 0 \<and> (0::int) \<le> 0 \<and> (0::int) < 2 ^ 63 - 1" using d by simp
  note t1 = poll_tick_arithmetic [OF ts, where interval = 3500 and ticks = 0
      and evs = "[TickerFired, CancelReceived, TickerFired]" and p = DivideByZero]
  note t1' = poll_tick_arithmetic [OF ts, where interval = "- 3500" and ticks = 0
      and evs = "[TickerFired, TickerFired]" and p = DivideByZero]
  note t2 = poll_tick_arithmetic [OF ts, where interval = 3500 and ticks = 4 and j = 2]
  note t3 = poll_tick_arithmetic [OF ts, where interval = 3500 and ticks = 0 and j = 2]
  note t4 = poll_tick_arithmetic [OF ts, where interval = 999 and ticks = 0 and k = 1 and evs = "[]"]
  note t5 = poll_tick_arithmetic [OF ts, where interval = "- 999" and ticks = 0 and k = 0 and evs = "[]"]
  from t1 a have r1: "PollState_loop 1000 3500 0 [TickerFired, CancelReceived, TickerFired] \<noteq> PollPanicked DivideByZero"
    by blast
  from t1' a' have r1': "PollState_loop 1000 (- 3500) 0 [TickerFired, TickerFired] \<noteq> PollPanicked DivideByZero"
    by blast
  from t2 b have "PollState_loop 1000 3500 4 (replicate 2 TickerFired)
              = (let n = 3500 div 1000; next = (4 div n + 1) * n
                 in if next - 4 \<le> int 2 then PollUpdateCheck next
                    else PollWaiting (4 + int 2))" by blast
  then have r2: "PollState_loop 1000 3500 4 (replicate 2 TickerFired) = PollUpdateCheck 6"
    by (simp add: Let_def)
  from t3 b0 have "PollState_loop 1000 3500 0 (replicate 2 TickerFired)
              = (let n = 3500 div 1000; next = (0 div n + 1) * n
                 in if next - 0 \<le> int 2 then PollUpdateCheck next
                    else PollWaiting (0 + int 2))" by blast
  then have r3: "PollState_loop 1000 3500 0 (replicate 2 TickerFired) = PollWaiting 2"
    by (simp add: Let_def)
  from t4 c have r4: "PollState_loop 1000 999 0 (replicate 1 CancelReceived @ TickerFired # []) = PollPanicked DivideByZero"
    by blast
  from t5 d' have r5: "PollState_loop 1000 (- 999) 0 (replicate 0 CancelReceived @ TickerFired # []) = PollPanicked DivideByZero"
    by blast
  from r1 r1' r2 r3 r4 r5 d show ?thesis by blast
qed

text \<open>
  Claim C9 as stated makes an interval of at least the tick length necessary. With
  a tick length of 1000 and an interval of -2000, which is below the tick length,
  the quotient is -2, the first tick leaves the loop waiting and the second tick
  sets the next state to UpdateCheck: no division by zero occurs.
\<close>

theorem poll_negative_interval_is_total:
  "\<not> ((1000::int) \<le> - 2000)
   \<and> go_quot (- 2000) 1000 = Inr (- 2)
   \<and> PollState_loop 1000 (- 2000) 0 [TickerFired] = PollWaiting 1
   \<and> PollState_loop 1000 (- 2000) 0 [TickerFired, TickerFired] = PollUpdateCheck 2"
  by (simp add: Let_def go_quot_def go_rem_def wrap_int64_def)

section \<open>Properties of the daemon loop\<close>


lemma reports_precede_handles_append:
  "reports_precede_handles xs \<Longrightarrow> reports_precede_handles ys \<Longrightarrow> reports_precede_handles (xs @ ys)"
  by (induction xs rule: reports_precede_handles.induct) auto





section \<open>Properties of the update client\<close>

lemma ParseInt_examples:
  "ParseInt ''300'' = Some 300" "ParseInt ''-1'' = Some (- 1)" "ParseInt ''+17'' = Some 17"
  "ParseInt [] = None" "ParseInt ''-'' = None" "ParseInt ''3 0'' = None"
  "ParseInt ''9223372036854775807'' = Some 9223372036854775807"
  "ParseInt ''9223372036854775808'' = None"
  "ParseInt ''-9223372036854775808'' = Some (- 9223372036854775808)"
  by (simp_all add: ParseInt_def is_digit_def digit_value_def)

text \<open>
  Claim C7, as amended. For a probe whose exchange succeeds (the requester is
  present, the request is built, \<^verbatim>\<open>Do\<close> answers and the response is processed
  without error): when the \<^verbatim>\<open>Add-Extra-Poll\<close> header is absent the extra poll is
  zero and there is no error; when it is present and its joined values do not
  parse as an integer, the probe returns no descriptor, a zero extra poll and the
  error \<open>failed to parse extra poll header\<close>; when it is present and its joined
  values parse as an integer, the probe returns the descriptor of the response and
  no error.
\<close>

theorem check_update_extra_poll:
  assumes "processUpgradeResponse NewUpdateMetadata res = (r, None)"
  shows "(Header res ''Add-Extra-Poll'' = None \<longrightarrow>
            UpdateClient_CheckUpdate NewUpdateMetadata (Some \<lparr>NewRequest = None, Do = Inr res\<rparr>)
              = (r, 0, None))
       \<and> (Header res ''Add-Extra-Poll'' = Some v \<and> ParseInt (concat v) = None \<longrightarrow>
            UpdateClient_CheckUpdate NewUpdateMetadata (Some \<lparr>NewRequest = None, Do = Inr res\<rparr>)
              = (None, 0, Some (Error ''failed to parse extra poll header'')))
       \<and> (Header res ''Add-Extra-Poll'' = Some v \<and> ParseInt (concat v) \<noteq> None \<longrightarrow>
            fst (UpdateClient_CheckUpdate NewUpdateMetadata (Some \<lparr>NewRequest = None, Do = Inr res\<rparr>)) = r
            \<and> snd (snd (UpdateClient_CheckUpdate NewUpdateMetadata (Some \<lparr>NewRequest = None, Do = Inr res\<rparr>)))
                = None)"
  using assms by (auto simp: UpdateClient_CheckUpdate_def split: option.splits)

theorem check_update_extra_poll_witness:
  "UpdateClient_CheckUpdate example_parse (example_api (example_response 404 None)) = (None, 0, None)
   \<and> UpdateClient_CheckUpdate example_parse (example_api (example_response 404 (Some [''later''])))
       = (None, 0, Some (Error ''failed to parse extra poll header''))
   \<and> fst (UpdateClient_CheckUpdate example_parse (example_api (example_response 200 (Some [''30'']))))
       = Some \<lparr>PackageUID = ''body'', Objects = [[''a'']]\<rparr>
   \<and> snd (snd (UpdateClient_CheckUpdate example_parse (example_api (example_response 200 (Some [''30''])))))
       = None"
proof -
  have p1: "processUpgradeResponse example_parse (example_response 404 None) = (None, None)"
    by (simp add: processUpgradeResponse_def example_response_def)
  have h1: "Header (example_response 404 None) ''Add-Extra-Poll'' = None"
    by (simp add: example_response_def)
  have p2: "processUpgradeResponse example_parse (example_response 404 (Some [''later''])) = (None, None)"
    by (simp add: processUpgradeResponse_def example_response_def)
  have h2: "Header (example_response 404 (Some [''later''])) ''Add-Extra-Poll'' = Some [''later'']
            \<and> ParseInt (concat [''later'']) = None"
    by (simp add: example_response_def ParseInt_def is_digit_def)
  have p3: "processUpgradeResponse example_parse (example_response 200 (Some [''30'']))
              = (Some \<lparr>PackageUID = ''body'', Objects = [[''a'']]\<rparr>, None)"
    by (simp add: processUpgradeResponse_def example_response_def example_parse_def)
  have h3: "Header (example_response 200 (Some [''30''])) ''Add-Extra-Poll'' = Some [''30'']
            \<and> ParseInt (concat [''30'']) \<noteq> None"
    by (simp add: example_response_def ParseInt_def is_digit_def digit_value_def)
  from check_update_extra_poll [OF p1] h1
  have r1: "UpdateClient_CheckUpdate example_parse (example_api (example_response 404 None)) = (None, 0, None)"
    unfolding example_api_def by blast
  from check_update_extra_poll [OF p2, of "[''later'']"] h2
  have r2: "UpdateClient_CheckUpdate example_parse (example_api (example_response 404 (Some [''later''])))
       = (None, 0, Some (Error ''failed to parse extra poll header''))"
    unfolding example_api_def by blast
  from check_update_extra_poll [OF p3, of "[''30'']"] h3
  have r3: "fst (UpdateClient_CheckUpdate example_parse (example_api (example_response 200 (Some [''30'']))))
       = Some \<lparr>PackageUID = ''body'', Objects = [[''a'']]\<rparr>
   \<and> snd (snd (UpdateClient_CheckUpdate example_parse (example_api (example_response 200 (Some [''30''])))))
       = None"
    unfolding example_api_def by blast
  from r1 r2 r3 show ?thesis by blast
qed

text \<open>
  Claim C7 as stated fails twice on a 404 response that is processed without
  error. With the header \<open>soon\<close> the probe returns an error. With the header
  \<open>30\<close> the extra poll returned is the duration 30, which is 30 nanoseconds
  and not 30 seconds.
\<close>

theorem check_update_malformed_extra_poll_is_error:
  "processUpgradeResponse example_parse (example_response 404 (Some [''soon''])) = (None, None)
   \<and> UpdateClient_CheckUpdate example_parse (example_api (example_response 404 (Some [''soon''])))
       = (None, 0, Some (Error ''failed to parse extra poll header''))
   \<and> processUpgradeResponse example_parse (example_response 404 (Some [''30''])) = (None, None)
   \<and> UpdateClient_CheckUpdate example_parse (example_api (example_response 404 (Some [''30''])))
       = (None, 30, None)
   \<and> (30 :: int) \<noteq> 30 * Second"
  by (simp add: UpdateClient_CheckUpdate_def processUpgradeResponse_def example_response_def
        example_api_def ParseInt_def is_digit_def digit_value_def Second_def)

end
